theory Spec2Isabelle
  imports Main
begin

section \<open>Values, exceptions and module constants of \<open>current_city_weather.py\<close>\<close>

text \<open>
  Python is dynamically typed: the constructor and the setters of \<open>CityWeather\<close> receive
  any object. The values that matter to the checks of this module are strings, the
  absent value \<open>None\<close> and one kind of non-string value, the integers.
  A \<open>string\<close> is a list of characters, each read as a code point below 256.
\<close>

datatype pyval = PyNone | PyInt int | PyStr string

text \<open>
  Exceptions raised by the libraries the module calls (\<open>urllib.request.urlopen\<close>, the
  built-in \<open>open\<close>, \<open>xml.dom.minidom.parse\<close>). None of them is a \<open>WeatherException\<close>,
  which is a class of this module.
\<close>

datatype lib_exn = URLError | HTTPError nat | InvalidURL | OSError | ExpatError

datatype exn =
    WeatherException string
  | KeyError
  | TypeError
  | ValueError
  | IndexError
  | RecursionError
  | UnboundLocalError
  | Lib lib_exn

definition SERVER_NAME :: string where
  "SERVER_NAME = ''http://api.openweathermap.org''"

definition DATA_PATH :: string where
  "DATA_PATH = ''/data/2.5/weather?q=''"

definition CITY_FILE_NAME :: string where
  "CITY_FILE_NAME = ''weather.xml''"

text \<open>
  \<open>unit_conversion_dict\<close>: a dict literal; iteration and \<open>items()\<close> follow the order of
  insertion, so it is an association list in the order of the source.
\<close>

definition unit_conversion_dict :: "(string \<times> string) list" where
  "unit_conversion_dict =
     [(''fahrenheit'', ''imperial''), (''celsius'', ''metric''), (''kelvin'', '''')]"

text \<open>\<open>unit_conversion_dict[k]\<close>: a key that is not in the dict raises KeyError.\<close>

definition unit_conversion_getitem :: "pyval \<Rightarrow> exn + string" where
  "unit_conversion_getitem k =
     (case k of
        PyStr s \<Rightarrow> (case map_of unit_conversion_dict s of
                      None \<Rightarrow> Inl KeyError
                    | Some v \<Rightarrow> Inr v)
      | _ \<Rightarrow> Inl KeyError)"

text \<open>The truth value of an object, as \<open>if val:\<close> tests it.\<close>

fun truthy :: "pyval \<Rightarrow> bool" where
  "truthy PyNone = False"
| "truthy (PyInt i) = (i \<noteq> 0)"
| "truthy (PyStr s) = (s \<noteq> [])"

text \<open>\<open>type(val) is str\<close>.\<close>

fun is_str :: "pyval \<Rightarrow> bool" where
  "is_str (PyStr s) = True"
| "is_str _ = False"

section \<open>The class \<open>CityWeather\<close>: constructor and setters\<close>

record CityWeather =
  city_name :: pyval
  units :: pyval
  api_key :: pyval
  mode :: pyval

text \<open>\<open>__init__\<close> assigns the three private attributes directly and sets \<open>mode\<close>.\<close>

definition CityWeather_init :: "pyval \<Rightarrow> pyval \<Rightarrow> pyval \<Rightarrow> CityWeather" where
  "CityWeather_init city_name_arg units_arg api_key_arg =
     \<lparr>city_name = city_name_arg, units = units_arg, api_key = api_key_arg,
      mode = PyStr ''xml''\<rparr>"

definition city_name_msg :: string where
  "city_name_msg =
     ''city name inserted is not of string type, please enter only''
     @ '' a string and if the city name is more than one word ''
     @ ''separated by space''"

definition city_name_setter :: "pyval \<Rightarrow> CityWeather \<Rightarrow> exn + CityWeather" where
  "city_name_setter val self =
     (if \<not> is_str val then Inl (WeatherException city_name_msg)
      else Inr (self\<lparr>city_name := val\<rparr>))"

text \<open>
  The message of the units setter interpolates \<open>unit_conversion_dict.keys()\<close>, whose
  text is \<open>dict_keys(['fahrenheit', 'celsius', 'kelvin'])\<close>.
\<close>

fun join_comma :: "string list \<Rightarrow> string" where
  "join_comma [] = []"
| "join_comma [x] = x"
| "join_comma (x # y # ys) = x @ '', '' @ join_comma (y # ys)"

definition repr_str :: "string \<Rightarrow> string" where
  "repr_str s = [CHR 0x27] @ s @ [CHR 0x27]"

definition units_msg :: string where
  "units_msg =
     ''Wrong value is set for temperature units, enter only ''
     @ ''dict_keys(['' @ join_comma (map (repr_str \<circ> fst) unit_conversion_dict) @ ''])''"

text \<open>
  The loop of the units setter, \<open>for k in unit_conversion_dict: if val != k: raise\<close>,
  over the keys still to visit: \<open>Some\<close> is the exception raised, \<open>None\<close> the loop running
  to its end.
\<close>

fun units_loop :: "string list \<Rightarrow> pyval \<Rightarrow> exn option" where
  "units_loop [] val = None"
| "units_loop (k # ks) val =
     (if val \<noteq> PyStr k then Some (WeatherException units_msg)
      else units_loop ks val)"

definition units_setter :: "pyval \<Rightarrow> CityWeather \<Rightarrow> exn + CityWeather" where
  "units_setter val self =
     (case units_loop (map fst unit_conversion_dict) val of
        Some e \<Rightarrow> Inl e
      | None \<Rightarrow> Inr (self\<lparr>units := val\<rparr>))"

definition api_key_msg :: string where
  "api_key_msg =
     ''No value was entered to api_key.'' @ [CHR 0x0A] @ ''Please enter a valid key ''
     @ ''after signing up the openweathermap site, see help at:'' @ [CHR 0x0A]
     @ ''https://openweathermap.org/appid''"

text \<open>
  The api_key setter assigns \<open>self.api_key = val\<close>, the property itself, so a truthy value
  calls the setter again. The first argument is the number of frames the interpreter
  still allows (\<open>sys.getrecursionlimit()\<close> minus the depth of the caller): a call with
  no frame left raises RecursionError.
\<close>

fun api_key_setter :: "nat \<Rightarrow> pyval \<Rightarrow> CityWeather \<Rightarrow> exn + CityWeather" where
  "api_key_setter 0 val self = Inl RecursionError"
| "api_key_setter (Suc frames) val self =
     (if truthy val then api_key_setter frames val self
      else Inl (WeatherException api_key_msg))"

section \<open>Helpers for the Python operations the methods use\<close>

text \<open>Sequencing of steps that may raise: the first exception ends the sequence.\<close>

definition bind_exn :: "exn + 'a \<Rightarrow> ('a \<Rightarrow> exn + 'b) \<Rightarrow> exn + 'b" where
  "bind_exn r f = (case r of Inl e \<Rightarrow> Inl e | Inr x \<Rightarrow> f x)"

text \<open>\<open>xs[0]\<close>: IndexError on an empty sequence.\<close>

definition index0 :: "'a list \<Rightarrow> exn + 'a" where
  "index0 xs = (case xs of [] \<Rightarrow> Inl IndexError | x # _ \<Rightarrow> Inr x)"

text \<open>\<open>a + b\<close> with \<open>a\<close> a string: TypeError unless \<open>b\<close> is a string too.\<close>

definition str_add :: "string \<Rightarrow> pyval \<Rightarrow> exn + string" where
  "str_add a b = (case b of PyStr s \<Rightarrow> Inr (a @ s) | _ \<Rightarrow> Inl TypeError)"

text \<open>\<open>str(v)\<close>, as the conversion \<open>%s\<close> applies it.\<close>

definition digit_char :: "nat \<Rightarrow> char" where
  "digit_char d = char_of (48 + d)"

fun decimal :: "nat \<Rightarrow> string" where
  "decimal n = (if n < 10 then [digit_char n] else decimal (n div 10) @ [digit_char (n mod 10)])"

declare decimal.simps [simp del]

definition str_of :: "pyval \<Rightarrow> string" where
  "str_of v =
     (case v of
        PyNone \<Rightarrow> ''None''
      | PyInt i \<Rightarrow> (if i < 0 then ''-'' @ decimal (nat (- i)) else decimal (nat i))
      | PyStr s \<Rightarrow> s)"

text \<open>
  \<open>fmt % args\<close> for the conversions the module uses: \<open>%s\<close> consumes one argument (already
  converted with \<open>str\<close>), \<open>%%\<close> is a percent sign. Too few or too many arguments raise
  TypeError, another conversion character or a lone \<open>%\<close> at the end ValueError.
\<close>

fun percent_format :: "string \<Rightarrow> string list \<Rightarrow> exn + string" where
  "percent_format [] [] = Inr []"
| "percent_format [] (a # as) = Inl TypeError"
| "percent_format (c # cs) as =
     (if c \<noteq> CHR ''%'' then bind_exn (percent_format cs as) (\<lambda>r. Inr (c # r))
      else (case cs of
              [] \<Rightarrow> Inl ValueError
            | d # ds \<Rightarrow>
                if d = CHR ''%'' then bind_exn (percent_format ds as) (\<lambda>r. Inr (CHR ''%'' # r))
                else if d = CHR ''s'' then
                  (case as of
                     [] \<Rightarrow> Inl TypeError
                   | a # as' \<Rightarrow> bind_exn (percent_format ds as') (\<lambda>r. Inr (a @ r)))
                else Inl ValueError))"

text \<open>
  \<open>str.lower()\<close> on code points below 256: the ASCII capitals and the Latin-1 capitals
  (\<open>0xC0\<close> to \<open>0xDE\<close> without the multiplication sign \<open>0xD7\<close>) move up by 32.
\<close>

definition lower_char :: "char \<Rightarrow> char" where
  "lower_char c =
     (let n = (of_char c :: nat)
      in if (65 \<le> n \<and> n \<le> 90) \<or> (192 \<le> n \<and> n \<le> 214) \<or> (216 \<le> n \<and> n \<le> 222)
         then char_of (n + 32) else c)"

definition lower :: "string \<Rightarrow> string" where
  "lower s = map lower_char s"

section \<open>XML documents as \<open>xml.dom.minidom\<close> presents them\<close>

text \<open>
  An element has a tag name, attributes and child nodes. Child nodes that are not
  elements (text, comments) have no element below them and are skipped by
  \<open>getElementsByTagName\<close>, so the children kept here are the child elements.
\<close>

datatype xml = Element string "(string \<times> string) list" "xml list"

text \<open>
  minidom's \<open>_get_elements_by_tagName_helper(parent, name, rc)\<close> over the child nodes of
  \<open>parent\<close>: each matching child, then the matches below it, in document order.
\<close>

fun get_elements_by_tagName_helper :: "xml list \<Rightarrow> string \<Rightarrow> xml list" where
  "get_elements_by_tagName_helper [] name = []"
| "get_elements_by_tagName_helper (Element tg at ch # ns) name =
     (if name = ''*'' \<or> tg = name then [Element tg at ch] else [])
     @ get_elements_by_tagName_helper ch name
     @ get_elements_by_tagName_helper ns name"

text \<open>\<open>Element.getElementsByTagName\<close> searches below the element.\<close>

fun getElementsByTagName :: "xml \<Rightarrow> string \<Rightarrow> xml list" where
  "getElementsByTagName (Element tg at ch) name = get_elements_by_tagName_helper ch name"

text \<open>
  \<open>Document.getElementsByTagName\<close> searches below the document node, whose child
  element is the root element; a document is given by its root element.
\<close>

definition document_getElementsByTagName :: "xml \<Rightarrow> string \<Rightarrow> xml list" where
  "document_getElementsByTagName root name = get_elements_by_tagName_helper [root] name"

text \<open>\<open>Element.getAttribute\<close>: the empty string when the attribute is absent.\<close>

fun getAttribute :: "xml \<Rightarrow> string \<Rightarrow> string" where
  "getAttribute (Element tg at ch) a = (case map_of at a of None \<Rightarrow> [] | Some v \<Rightarrow> v)"

section \<open>Program state and the outside world\<close>

text \<open>
  The value stored per city: a dict of five dicts of two entries each, with fixed and
  distinct keys; the ten entries are the fields.
\<close>

record report =
  temperature_val :: string
  temp_unit :: string
  humidity_val :: string
  humidity_unit :: string
  wind_val :: string
  wind_desc :: string
  pressure_val :: string
  pressure_unit :: string
  clouds_val :: string
  clouds_desc :: string

text \<open>
  The state the module reads and writes: the module-level \<open>city_weather_dict\<close>, the files
  of the working directory, the text printed so far, and the URLs opened so far.
\<close>

record state =
  city_weather_dict :: "pyval \<rightharpoonup> report"
  files :: "string \<rightharpoonup> string"
  stdout :: string
  requests :: "string list"

text \<open>
  What the module does not decide: the answer of the server to a URL (\<open>urlopen(url).read()\<close>,
  the bytes or an exception), whether a file can be opened and written, and the parser's
  result on the bytes of a file.
\<close>

record world =
  urlopen_read :: "string \<Rightarrow> lib_exn + string"
  open_write :: "string \<Rightarrow> string \<Rightarrow> lib_exn option"
  minidom_parse :: "string \<Rightarrow> lib_exn + xml"

text \<open>The built-in \<open>print\<close> of one string.\<close>

definition py_print :: "string \<Rightarrow> state \<Rightarrow> state" where
  "py_print s st = st\<lparr>stdout := stdout st @ s @ [CHR 0x0A]\<rparr>"

section \<open>The methods \<open>create_city_weather_data_file\<close>, \<open>update_city_weather_dict\<close>,
  \<open>print_city_weather_report\<close>\<close>

text \<open>
  The argument of \<open>urlopen\<close>: \<open>api_units\<close> is looked up first, then the concatenation runs
  from left to right.
\<close>

definition request_url :: "CityWeather \<Rightarrow> exn + string" where
  "request_url self =
     bind_exn (unit_conversion_getitem (units self)) (\<lambda>api_units.
     bind_exn (str_add (SERVER_NAME @ DATA_PATH) (city_name self)) (\<lambda>u1.
     bind_exn (str_add (u1 @ ''&appid='') (api_key self)) (\<lambda>u2.
     bind_exn (str_add (u2 @ ''&mode='') (mode self)) (\<lambda>u3.
     Inr (u3 @ ''&units='' @ api_units)))))"

text \<open>The body of the first \<open>try\<close>: open \<open>weather.xml\<close> for writing and write the bytes.\<close>

definition write_data_file :: "world \<Rightarrow> string \<Rightarrow> state \<Rightarrow> (exn + unit) \<times> state" where
  "write_data_file w xml_data st =
     (case open_write w CITY_FILE_NAME xml_data of
        Some e \<Rightarrow> (Inl (Lib e), st)
      | None \<Rightarrow> (Inr (), st\<lparr>files := (files st)(CITY_FILE_NAME \<mapsto> xml_data)\<rparr>))"

text \<open>
  \<open>urlopen\<close> and \<open>read\<close> stand outside any \<open>try\<close>. The \<open>except\<close> clause around the file
  operations handles \<open>WeatherException\<close> only: it prints and the method returns normally;
  any other exception leaves the method.
\<close>

definition create_city_weather_data_file ::
  "world \<Rightarrow> CityWeather \<Rightarrow> state \<Rightarrow> (exn + unit) \<times> state" where
  "create_city_weather_data_file w self st =
     (case request_url self of
        Inl e \<Rightarrow> (Inl e, st)
      | Inr url \<Rightarrow>
          (let st1 = st\<lparr>requests := requests st @ [url]\<rparr>
           in case urlopen_read w url of
                Inl e \<Rightarrow> (Inl (Lib e), st1)
              | Inr xml_data \<Rightarrow>
                  (case write_data_file w xml_data st1 of
                     (Inr u, st2) \<Rightarrow> (Inr (), st2)
                   | (Inl e, st2) \<Rightarrow>
                       (case e of
                          WeatherException m \<Rightarrow>
                            (case percent_format ''File operations failed with error: %s'' [m] of
                               Inl e' \<Rightarrow> (Inl e', st2)
                             | Inr line \<Rightarrow> (Inr (), py_print line st2))
                        | _ \<Rightarrow> (Inl e, st2)))))"

text \<open>
  The body of the second \<open>try\<close>: \<open>xml.dom.minidom.parse(CITY_FILE_NAME)\<close> opens the file of
  that name and parses its bytes.
\<close>

definition parse_data_file :: "world \<Rightarrow> state \<Rightarrow> exn + xml" where
  "parse_data_file w st =
     (case files st CITY_FILE_NAME of
        None \<Rightarrow> Inl (Lib OSError)
      | Some data \<Rightarrow>
          (case minidom_parse w data of
             Inl e \<Rightarrow> Inl (Lib e)
           | Inr document \<Rightarrow> Inr document))"

text \<open>
  Lines 120 to 158 without the store: the nodes are looked up and the ten attribute
  strings are read, in the order of the source. The source indexes each node list once
  per attribute read; the list is the same each time, so one indexing per list decides
  whether IndexError is raised.
\<close>

definition extract_report :: "xml \<Rightarrow> exn + report" where
  "extract_report document =
     bind_exn (index0 (document_getElementsByTagName document ''current'')) (\<lambda>node_current.
     let node_temp = getElementsByTagName node_current ''temperature'';
         node_wind = getElementsByTagName node_current ''wind'';
         node_humidity = getElementsByTagName node_current ''humidity'';
         node_pressure = getElementsByTagName node_current ''pressure'';
         node_clouds = getElementsByTagName node_current ''clouds''
     in
     bind_exn (index0 node_temp) (\<lambda>temp0.
     let temperature_val_v = getAttribute temp0 ''value'';
         api_temp_unit = getAttribute temp0 ''unit''
     in
     bind_exn (if api_temp_unit = ''metric''
               then index0 (map fst (filter (\<lambda>(k, v). v = api_temp_unit) unit_conversion_dict))
               else Inr api_temp_unit) (\<lambda>temp_unit_v.
     bind_exn (index0 node_humidity) (\<lambda>humidity0.
     bind_exn (index0 node_wind) (\<lambda>wind0.
     bind_exn (index0 (getElementsByTagName wind0 ''speed'')) (\<lambda>speed0.
     bind_exn (index0 node_clouds) (\<lambda>clouds0.
     bind_exn (index0 node_pressure) (\<lambda>pressure0.
     Inr \<lparr>temperature_val = temperature_val_v,
          temp_unit = temp_unit_v,
          humidity_val = getAttribute humidity0 ''value'',
          humidity_unit = getAttribute humidity0 ''unit'',
          wind_val = getAttribute speed0 ''value'',
          wind_desc = getAttribute speed0 ''name'',
          pressure_val = getAttribute pressure0 ''value'',
          pressure_unit = getAttribute pressure0 ''unit'',
          clouds_val = getAttribute clouds0 ''value'',
          clouds_desc = getAttribute clouds0 ''name''\<rparr>))))))))"

text \<open>
  \<open>update_city_weather_dict\<close>. The \<open>except\<close> clause around the parse handles
  \<open>WeatherException\<close> only; after it has printed, \<open>document\<close> is not bound and line 120
  raises UnboundLocalError. The store into \<open>city_weather_dict\<close> is the last statement.
\<close>

definition update_city_weather_dict ::
  "world \<Rightarrow> CityWeather \<Rightarrow> state \<Rightarrow> (exn + unit) \<times> state" where
  "update_city_weather_dict w self st =
     (case create_city_weather_data_file w self st of
        (Inl e, st1) \<Rightarrow> (Inl e, st1)
      | (Inr u, st1) \<Rightarrow>
          (case parse_data_file w st1 of
             Inl e \<Rightarrow>
               (case e of
                  WeatherException m \<Rightarrow>
                    (case percent_format ''Parsing data file %s failed with error: %s''
                            [CITY_FILE_NAME, m] of
                       Inl e' \<Rightarrow> (Inl e', st1)
                     | Inr line \<Rightarrow> (Inl UnboundLocalError, py_print line st1))
                | _ \<Rightarrow> (Inl e, st1))
           | Inr document \<Rightarrow>
               (case extract_report document of
                  Inl e \<Rightarrow> (Inl e, st1)
                | Inr r \<Rightarrow>
                    (Inr (), st1\<lparr>city_weather_dict :=
                                  (city_weather_dict st1)(city_name self \<mapsto> r)\<rparr>))))"

definition report_format :: string where
  "report_format =
     ''Weather report for %s:'' @ [CHR 0x0A]
     @ ''Temperature is at %s %s'' @ [CHR 0x0A]
     @ ''Humidity is %s%s'' @ [CHR 0x0A]
     @ ''Wind is at %s speed meaning %s'' @ [CHR 0x0A]
     @ ''Air pressure is %s %s'' @ [CHR 0x0A]
     @ ''Clouds coverage is %s%% meaning %s'' @ [CHR 0x0A]"

text \<open>
  \<open>print_city_weather_report\<close>: \<open>city_weather_dict[city_name]\<close> raises KeyError for a city
  without an entry; the entry is the same at each of the ten lookups of the source.
\<close>

definition print_city_weather_report ::
  "CityWeather \<Rightarrow> state \<Rightarrow> (exn + unit) \<times> state" where
  "print_city_weather_report self st =
     (case city_weather_dict st (city_name self) of
        None \<Rightarrow> (Inl KeyError, st)
      | Some r \<Rightarrow>
          (case percent_format report_format
                  [str_of (city_name self),
                   temperature_val r, temp_unit r,
                   humidity_val r, humidity_unit r,
                   wind_val r, lower (wind_desc r),
                   pressure_val r, pressure_unit r,
                   clouds_val r, lower (clouds_desc r)] of
             Inl e \<Rightarrow> (Inl e, st)
           | Inr text \<Rightarrow> (Inr (), py_print text st)))"

section \<open>The entry points \<open>run\<close> and \<open>main\<close>\<close>

definition run :: "world \<Rightarrow> pyval \<Rightarrow> pyval \<Rightarrow> pyval \<Rightarrow> state \<Rightarrow> (exn + unit) \<times> state" where
  "run w city_name_arg units_arg api_key_arg st =
     (let weather_obj = CityWeather_init city_name_arg units_arg api_key_arg
      in case update_city_weather_dict w weather_obj st of
           (Inl e, st1) \<Rightarrow> (Inl e, st1)
         | (Inr u, st1) \<Rightarrow> print_city_weather_report weather_obj st1)"

text \<open>
  \<open>main\<close> after \<open>parser.parse_args()\<close> has returned: the three positional arguments are
  strings of the command line, the second one among the \<open>choices\<close> of the parser.
\<close>

record args =
  args_city_name :: string
  args_temp_units :: string
  args_api_key :: string

definition main :: "world \<Rightarrow> args \<Rightarrow> state \<Rightarrow> (exn + unit) \<times> state" where
  "main w a st =
     (let ob = CityWeather_init (PyStr (args_city_name a)) (PyStr (args_temp_units a))
                 (PyStr (args_api_key a))
      in case update_city_weather_dict w ob st of
           (Inl e, st1) \<Rightarrow> (Inl e, st1)
         | (Inr u, st1) \<Rightarrow> print_city_weather_report ob st1)"

section \<open>Expected elements and concrete inputs\<close>

text \<open>
  The elements the extraction expects: \<open>current\<close> in the document, and below the first
  \<open>current\<close> the elements \<open>temperature\<close>, \<open>humidity\<close>, \<open>wind\<close> with a \<open>speed\<close> below
  the first \<open>wind\<close>, \<open>clouds\<close> and \<open>pressure\<close>. A document misses an expected element
  when one of these searches finds nothing.
\<close>

definition missing_expected_element :: "xml \<Rightarrow> bool" where
  "missing_expected_element document =
     (case document_getElementsByTagName document ''current'' of
        [] \<Rightarrow> True
      | node_current # _ \<Rightarrow>
          getElementsByTagName node_current ''temperature'' = []
          \<or> getElementsByTagName node_current ''humidity'' = []
          \<or> (case getElementsByTagName node_current ''wind'' of
                [] \<Rightarrow> True
              | wind0 # _ \<Rightarrow> getElementsByTagName wind0 ''speed'' = [])
          \<or> getElementsByTagName node_current ''clouds'' = []
          \<or> getElementsByTagName node_current ''pressure'' = [])"

text \<open>
  Concrete inputs: the response of the specification's example, a world that answers
  with it, the empty initial state and a query for \<open>tel aviv\<close> in celsius.
\<close>

definition sample_document :: xml where
  "sample_document =
     Element ''current'' []
       [Element ''temperature'' [(''value'', ''15''), (''unit'', ''metric'')] [],
        Element ''humidity'' [(''value'', ''60''), (''unit'', ''%'')] [],
        Element ''wind'' [] [Element ''speed'' [(''value'', ''3''), (''name'', ''Light breeze'')] []],
        Element ''pressure'' [(''value'', ''1012''), (''unit'', ''hPa'')] [],
        Element ''clouds'' [(''value'', ''40''), (''name'', ''scattered clouds'')] []]"

definition sample_report :: report where
  "sample_report =
     \<lparr>temperature_val = ''15'', temp_unit = ''celsius'',
      humidity_val = ''60'', humidity_unit = ''%'',
      wind_val = ''3'', wind_desc = ''Light breeze'',
      pressure_val = ''1012'', pressure_unit = ''hPa'',
      clouds_val = ''40'', clouds_desc = ''scattered clouds''\<rparr>"

definition sample_world :: world where
  "sample_world =
     \<lparr>urlopen_read = (\<lambda>url. Inr ''<current/>''),
      open_write = (\<lambda>name data. None),
      minidom_parse = (\<lambda>data. Inr sample_document)\<rparr>"

definition sample_state :: state where
  "sample_state = \<lparr>city_weather_dict = Map.empty, files = Map.empty, stdout = [], requests = []\<rparr>"

definition sample_url :: string where
  "sample_url = ''http://api.openweathermap.org/data/2.5/weather?q=tel aviv&appid=KEY&mode=xml&units=metric''"

definition tel_aviv :: CityWeather where
  "tel_aviv = CityWeather_init (PyStr ''tel aviv'') (PyStr ''celsius'') (PyStr ''KEY'')"

text \<open>
  The same response without the \<open>wind\<close> element, and worlds in which the request, the
  file write or the parse fails.
\<close>

definition no_wind_document :: xml where
  "no_wind_document =
     Element ''current'' []
       [Element ''temperature'' [(''value'', ''15''), (''unit'', ''metric'')] [],
        Element ''humidity'' [(''value'', ''60''), (''unit'', ''%'')] [],
        Element ''pressure'' [(''value'', ''1012''), (''unit'', ''hPa'')] [],
        Element ''clouds'' [(''value'', ''40''), (''name'', ''scattered clouds'')] []]"

definition no_wind_world :: world where
  "no_wind_world = sample_world\<lparr>minidom_parse := (\<lambda>data. Inr no_wind_document)\<rparr>"




text \<open>A second response for the same city, and the states after each of the two queries.\<close>

definition second_document :: xml where
  "second_document =
     Element ''current'' []
       [Element ''city'' [(''name'', ''Tel Aviv'')] [],
        Element ''temperature'' [(''value'', ''288.15''), (''unit'', ''kelvin'')] [],
        Element ''humidity'' [(''value'', ''71''), (''unit'', ''%'')] [],
        Element ''pressure'' [(''value'', ''1009''), (''unit'', ''hPa'')] [],
        Element ''wind'' []
          [Element ''speed'' [(''value'', ''7.2''), (''name'', ''Moderate breeze'')] [],
           Element ''direction'' [(''value'', ''270''), (''code'', ''W'')] []],
        Element ''clouds'' [(''value'', ''0''), (''name'', ''clear sky'')] []]"

definition second_report :: report where
  "second_report =
     \<lparr>temperature_val = ''288.15'', temp_unit = ''kelvin'',
      humidity_val = ''71'', humidity_unit = ''%'',
      wind_val = ''7.2'', wind_desc = ''Moderate breeze'',
      pressure_val = ''1009'', pressure_unit = ''hPa'',
      clouds_val = ''0'', clouds_desc = ''clear sky''\<rparr>"

definition second_world :: world where
  "second_world =
     \<lparr>urlopen_read = (\<lambda>url. Inr ''<current>2</current>''),
      open_write = (\<lambda>name data. None),
      minidom_parse = (\<lambda>data. Inr second_document)\<rparr>"

definition after_first :: state where
  "after_first =
     sample_state\<lparr>requests := [sample_url],
                files := [CITY_FILE_NAME \<mapsto> ''<current/>''],
                city_weather_dict := [PyStr ''tel aviv'' \<mapsto> sample_report]\<rparr>"

definition after_second :: state where
  "after_second =
     sample_state\<lparr>requests := [sample_url, sample_url],
                files := [CITY_FILE_NAME \<mapsto> ''<current>2</current>''],
                city_weather_dict := [PyStr ''tel aviv'' \<mapsto> second_report]\<rparr>"




section \<open>Properties of the constructor and the setters\<close>

lemma units_loop_two_keys:
  "k1 \<noteq> k2 \<Longrightarrow> units_loop (k1 # k2 # ks) val = Some (WeatherException units_msg)"
  by auto

text \<open>
  C1. The units setter is claimed to store each of kelvin, celsius and fahrenheit and to
  reject every other value. The loop of the setter raises as soon as the value differs from
  one key of \<open>unit_conversion_dict\<close>, and no value equals all three keys: the setter raises
  WeatherException for every value, the three unit names included, and stores nothing.
  The tokens of the table are the claimed ones.
\<close>

theorem units_setter_always_raises:
  "units_setter val self = Inl (WeatherException units_msg)
   \<and> units_setter (PyStr ''celsius'') self = Inl (WeatherException units_msg)
   \<and> unit_conversion_getitem (PyStr ''kelvin'') = Inr ''''
   \<and> unit_conversion_getitem (PyStr ''celsius'') = Inr ''metric''
   \<and> unit_conversion_getitem (PyStr ''fahrenheit'') = Inr ''imperial''"
  by (simp add: units_setter_def unit_conversion_dict_def unit_conversion_getitem_def
      units_loop_two_keys)

lemma api_key_setter_truthy:
  "truthy val \<Longrightarrow> api_key_setter frames val self = Inl RecursionError"
  by (induction frames) simp_all

text \<open>
  C2. The api_key setter is claimed to store every non-empty string. It never stores
  anything: with a truthy value it calls itself until the interpreter's frame limit and
  ends in RecursionError, whatever the number of frames; the stored key is not changed.
  An empty or absent value is rejected with WeatherException as claimed, when the call
  itself has a frame.
\<close>

theorem api_key_setter_never_stores:
  "api_key_setter frames (PyStr (c # cs)) self = Inl RecursionError
   \<and> api_key_setter frames (PyStr ''0e0ab2271488dc844f64ead7184b53fc'') self = Inl RecursionError
   \<and> api_key_setter (Suc frames) (PyStr '''') self = Inl (WeatherException api_key_msg)
   \<and> api_key_setter (Suc frames) PyNone self = Inl (WeatherException api_key_msg)"
  by (simp add: api_key_setter_truthy)

text \<open>
  C6, as claimed: an empty string is rejected by the city_name setter. It is not: the
  setter tests the type only.
\<close>

theorem city_name_setter_empty_accepted:
  "city_name_setter (PyStr '''') (CityWeather_init (PyStr ''paris'') (PyStr ''celsius'') PyNone)
   = Inr (CityWeather_init (PyStr '''') (PyStr ''celsius'') PyNone)"
  by (simp add: city_name_setter_def CityWeather_init_def)

text \<open>
  C6, amended: a value that is not a string (a number, None) is rejected with
  WeatherException and every string, the empty one and multi-word names included, is
  stored as the city name, the other attributes unchanged.
\<close>

theorem city_name_setter_type_check:
  "city_name_setter (PyInt i) self = Inl (WeatherException city_name_msg)
   \<and> city_name_setter PyNone self = Inl (WeatherException city_name_msg)
   \<and> city_name_setter (PyStr s) self = Inr (self\<lparr>city_name := PyStr s\<rparr>)
   \<and> city_name_setter (PyStr ''tel aviv'') self = Inr (self\<lparr>city_name := PyStr ''tel aviv''\<rparr>)"
  by (simp add: city_name_setter_def)

section \<open>Properties of the fetch, parse and render steps\<close>


lemma bind_exn_eq_Inl:
  "bind_exn r f = Inl e \<longleftrightarrow> r = Inl e \<or> (\<exists>x. r = Inr x \<and> f x = Inl e)"
  by (cases r) (simp_all add: bind_exn_def)

lemma write_data_file_result:
  "write_data_file w d st =
     (if open_write w CITY_FILE_NAME d = None
      then (Inr (), st\<lparr>files := (files st)(CITY_FILE_NAME \<mapsto> d)\<rparr>)
      else (Inl (Lib (the (open_write w CITY_FILE_NAME d))), st))"
  by (simp add: write_data_file_def split: option.splits)

lemma create_success:
  "create_city_weather_data_file w self st = (Inr (), st1) \<longleftrightarrow>
     (\<exists>url data. request_url self = Inr url \<and> urlopen_read w url = Inr data
        \<and> open_write w CITY_FILE_NAME data = None
        \<and> st1 = st\<lparr>requests := requests st @ [url],
                     files := (files st)(CITY_FILE_NAME \<mapsto> data)\<rparr>)"
  by (auto simp: create_city_weather_data_file_def write_data_file_result Let_def
      split: sum.splits)

lemma create_failure:
  assumes "create_city_weather_data_file w self st = (Inl e, st1)"
  shows "city_weather_dict st1 = city_weather_dict st \<and> stdout st1 = stdout st
         \<and> (\<forall>m. e \<noteq> WeatherException m)"
  using assms
  by (auto simp: create_city_weather_data_file_def write_data_file_result Let_def
      request_url_def bind_exn_eq_Inl unit_conversion_getitem_def str_add_def
      split: sum.splits if_splits pyval.splits option.splits)

lemma index0_eq_Inl: "index0 xs = Inl e \<longleftrightarrow> xs = [] \<and> e = IndexError"
  by (cases xs) (auto simp: index0_def)

lemma extract_report_Inl:
  "extract_report document = Inl e \<Longrightarrow> e = IndexError"
  by (auto simp: extract_report_def Let_def bind_exn_eq_Inl index0_eq_Inl
      split: if_splits)

lemma parse_data_file_written:
  "parse_data_file w (st\<lparr>requests := rq, files := (files st)(CITY_FILE_NAME \<mapsto> data)\<rparr>) =
     (case minidom_parse w data of Inl e \<Rightarrow> Inl (Lib e) | Inr document \<Rightarrow> Inr document)"
  by (simp add: parse_data_file_def)

lemma update_success:
  "update_city_weather_dict w self st = (Inr (), st') \<longleftrightarrow>
     (\<exists>url data document r. request_url self = Inr url \<and> urlopen_read w url = Inr data
        \<and> open_write w CITY_FILE_NAME data = None
        \<and> minidom_parse w data = Inr document
        \<and> extract_report document = Inr r
        \<and> st' = st\<lparr>requests := requests st @ [url],
                     files := (files st)(CITY_FILE_NAME \<mapsto> data),
                     city_weather_dict := (city_weather_dict st)(city_name self \<mapsto> r)\<rparr>)"
proof (cases "create_city_weather_data_file w self st")
  case (Pair res st1)
  show ?thesis
  proof (cases res)
    case (Inl e)
    with Pair have "create_city_weather_data_file w self st \<noteq> (Inr (), st1')" for st1'
      by simp
    then have no: "\<not> (\<exists>url data. request_url self = Inr url \<and> urlopen_read w url = Inr data
        \<and> open_write w CITY_FILE_NAME data = None)"
      by (auto simp: create_success)
    from Pair Inl have "update_city_weather_dict w self st = (Inl e, st1)"
      by (simp add: update_city_weather_dict_def)
    with no show ?thesis by auto
  next
    case (Inr u)
    with Pair have c: "create_city_weather_data_file w self st = (Inr (), st1)"
      by simp
    then obtain url data where ud: "request_url self = Inr url" "urlopen_read w url = Inr data"
        "open_write w CITY_FILE_NAME data = None"
        "st1 = st\<lparr>requests := requests st @ [url],
                     files := (files st)(CITY_FILE_NAME \<mapsto> data)\<rparr>"
      by (auto simp: create_success)
    have p: "parse_data_file w st1 =
       (case minidom_parse w data of Inl e \<Rightarrow> Inl (Lib e) | Inr document \<Rightarrow> Inr document)"
      unfolding ud(4) by (rule parse_data_file_written)
    show ?thesis
      using c ud p
      by (auto simp: update_city_weather_dict_def split: sum.splits)
  qed
qed

lemma update_failure:
  assumes "update_city_weather_dict w self st = (Inl e, st')"
  shows "city_weather_dict st' = city_weather_dict st \<and> stdout st' = stdout st
         \<and> (\<forall>m. e \<noteq> WeatherException m)"
proof (cases "create_city_weather_data_file w self st")
  case (Pair res st1)
  show ?thesis
  proof (cases res)
    case (Inl e1)
    with Pair assms have "e = e1" "st' = st1"
      by (simp_all add: update_city_weather_dict_def)
    with Pair Inl create_failure [of w self st e1 st1] show ?thesis by simp
  next
    case (Inr u)
    with Pair have c: "create_city_weather_data_file w self st = (Inr (), st1)"
      by simp
    then obtain url data where ud:
        "st1 = st\<lparr>requests := requests st @ [url],
                     files := (files st)(CITY_FILE_NAME \<mapsto> data)\<rparr>"
      by (auto simp: create_success)
    have p: "parse_data_file w st1 =
       (case minidom_parse w data of Inl e \<Rightarrow> Inl (Lib e) | Inr document \<Rightarrow> Inr document)"
      unfolding ud by (rule parse_data_file_written)
    show ?thesis
      using assms c p ud
      by (auto simp: update_city_weather_dict_def dest: extract_report_Inl split: sum.splits)
  qed
qed

lemma sample_request_url: "request_url tel_aviv = Inr sample_url"
  by (simp add: request_url_def tel_aviv_def CityWeather_init_def unit_conversion_getitem_def
      unit_conversion_dict_def str_add_def bind_exn_def SERVER_NAME_def DATA_PATH_def
      sample_url_def)

lemma sample_extract: "extract_report sample_document = Inr sample_report"
  by (simp add: extract_report_def sample_document_def sample_report_def
      document_getElementsByTagName_def index0_def bind_exn_def Let_def
      unit_conversion_dict_def)

lemma sample_update:
  "update_city_weather_dict sample_world tel_aviv sample_state =
     (Inr (), sample_state\<lparr>requests := [sample_url],
                files := [CITY_FILE_NAME \<mapsto> ''<current/>''],
                city_weather_dict := [PyStr ''tel aviv'' \<mapsto> sample_report]\<rparr>)"
  by (simp add: update_success sample_request_url sample_extract sample_world_def
      sample_state_def)
     (simp add: tel_aviv_def CityWeather_init_def)

lemma report_format_result:
  "percent_format report_format [a0, a1, a2, a3, a4, a5, a6, a7, a8, a9, a10] =
     Inr (''Weather report for '' @ a0 @ '':'' @ [CHR 0x0A]
          @ ''Temperature is at '' @ a1 @ '' '' @ a2 @ [CHR 0x0A]
          @ ''Humidity is '' @ a3 @ a4 @ [CHR 0x0A]
          @ ''Wind is at '' @ a5 @ '' speed meaning '' @ a6 @ [CHR 0x0A]
          @ ''Air pressure is '' @ a7 @ '' '' @ a8 @ [CHR 0x0A]
          @ ''Clouds coverage is '' @ a9 @ ''% meaning '' @ a10 @ [CHR 0x0A])"
  by (simp add: report_format_def bind_exn_def)

lemma percent_format_Inl:
  "percent_format fmt as = Inl e \<Longrightarrow> e = TypeError \<or> e = ValueError"
  by (induction fmt as rule: percent_format.induct)
     (auto simp: bind_exn_eq_Inl split: if_splits list.splits)

text \<open>
  C7. For a city with an entry in \<open>city_weather_dict\<close>, \<open>print_city_weather_report\<close>
  prints the six lines of the report: the wind description and the cloud description go
  through \<open>lower\<close>, every other field of the entry is interpolated as stored.
\<close>

theorem print_report_text:
  assumes "city_weather_dict st (city_name self) = Some r"
  shows "print_city_weather_report self st =
     (Inr (), st\<lparr>stdout := stdout st
        @ ''Weather report for '' @ str_of (city_name self) @ '':'' @ [CHR 0x0A]
        @ ''Temperature is at '' @ temperature_val r @ '' '' @ temp_unit r @ [CHR 0x0A]
        @ ''Humidity is '' @ humidity_val r @ humidity_unit r @ [CHR 0x0A]
        @ ''Wind is at '' @ wind_val r @ '' speed meaning '' @ lower (wind_desc r) @ [CHR 0x0A]
        @ ''Air pressure is '' @ pressure_val r @ '' '' @ pressure_unit r @ [CHR 0x0A]
        @ ''Clouds coverage is '' @ clouds_val r @ ''% meaning '' @ lower (clouds_desc r)
        @ [CHR 0x0A] @ [CHR 0x0A]\<rparr>)"
  using assms
  by (simp add: print_city_weather_report_def report_format_result py_print_def)

lemma lower_samples:
  "lower ''Light breeze'' = ''light breeze''"
  "lower ''scattered clouds'' = ''scattered clouds''"
  by code_simp+

lemma create_requests:
  "request_url self = Inr url \<Longrightarrow>
   requests (snd (create_city_weather_data_file w self st)) = requests st @ [url]"
  by (auto simp: create_city_weather_data_file_def write_data_file_result Let_def py_print_def
      split: sum.splits exn.splits)

text \<open>
  C9. For a city name and an API key that are strings and a units value \<open>u\<close> with a token
  \<open>tok\<close> in \<open>unit_conversion_dict\<close>, the URL built by the fetch step is the host
  followed by \<open>/data/2.5/weather?q=\<close>, the city, \<open>&appid=\<close>, the key,
  \<open>&mode=xml&units=\<close> and the token; \<open>create_city_weather_data_file\<close> opens exactly
  this URL, whatever the server then answers; the token is the empty string for kelvin,
  \<open>metric\<close> for celsius and \<open>imperial\<close> for fahrenheit.
\<close>

theorem request_url_issued:
  assumes "map_of unit_conversion_dict u = Some tok"
  shows "request_url (CityWeather_init (PyStr city) (PyStr u) (PyStr key))
           = Inr (SERVER_NAME @ ''/data/2.5/weather?q='' @ city @ ''&appid='' @ key
                  @ ''&mode=xml&units='' @ tok)
         \<and> requests (snd (create_city_weather_data_file w
               (CityWeather_init (PyStr city) (PyStr u) (PyStr key)) st))
           = requests st @ [SERVER_NAME @ ''/data/2.5/weather?q='' @ city @ ''&appid='' @ key
                  @ ''&mode=xml&units='' @ tok]
         \<and> ((u = ''kelvin'' \<and> tok = []) \<or> (u = ''celsius'' \<and> tok = ''metric'')
              \<or> (u = ''fahrenheit'' \<and> tok = ''imperial''))"
proof -
  have url: "request_url (CityWeather_init (PyStr city) (PyStr u) (PyStr key))
           = Inr (SERVER_NAME @ ''/data/2.5/weather?q='' @ city @ ''&appid='' @ key
                  @ ''&mode=xml&units='' @ tok)"
    using assms
    by (simp add: request_url_def CityWeather_init_def unit_conversion_getitem_def
        str_add_def bind_exn_def DATA_PATH_def)
  have tok: "(u = ''kelvin'' \<and> tok = []) \<or> (u = ''celsius'' \<and> tok = ''metric'')
              \<or> (u = ''fahrenheit'' \<and> tok = ''imperial'')"
    using assms by (auto simp: unit_conversion_dict_def split: if_splits)
  from url tok create_requests [OF url] show ?thesis by blast
qed


lemma missing_extract:
  "missing_expected_element document \<Longrightarrow> extract_report document = Inl IndexError"
  by (auto simp: missing_expected_element_def extract_report_def Let_def bind_exn_def
      index0_def unit_conversion_dict_def split: list.splits)

lemma present_extract:
  "\<not> missing_expected_element document \<Longrightarrow> \<exists>r. extract_report document = Inr r"
  by (auto simp: missing_expected_element_def extract_report_def Let_def bind_exn_def
      index0_def unit_conversion_dict_def split: list.splits)

lemma update_files:
  "update_city_weather_dict w self st = (Inr (), st') \<Longrightarrow>
   \<exists>url data document. request_url self = Inr url \<and> urlopen_read w url = Inr data
      \<and> minidom_parse w data = Inr document \<and> parse_data_file w st' = Inr document
      \<and> (\<exists>r. extract_report document = Inr r
             \<and> city_weather_dict st' = (city_weather_dict st)(city_name self \<mapsto> r))"
  by (auto simp: update_success parse_data_file_def)



text \<open>
  C4. When the fetch and the file operations succeed and the parsed document misses an
  expected element, the extraction fails (the parse error of the spec is the IndexError
  of indexing an empty node list), \<open>update_city_weather_dict\<close> ends with that error and
  \<open>city_weather_dict\<close> is what it was: no entry is created or updated.
\<close>

theorem missing_element_no_entry:
  assumes "missing_expected_element document"
      and "request_url self = Inr url"
      and "urlopen_read w url = Inr data"
      and "open_write w CITY_FILE_NAME data = None"
      and "minidom_parse w data = Inr document"
  shows "extract_report document = Inl IndexError
         \<and> fst (update_city_weather_dict w self st) = Inl IndexError
         \<and> city_weather_dict (snd (update_city_weather_dict w self st)) = city_weather_dict st"
proof -
  have e: "extract_report document = Inl IndexError"
    using assms(1) by (rule missing_extract)
  have c: "create_city_weather_data_file w self st =
       (Inr (), st\<lparr>requests := requests st @ [url],
                   files := (files st)(CITY_FILE_NAME \<mapsto> data)\<rparr>)"
    using assms(2-4) by (simp add: create_success)
  have "update_city_weather_dict w self st =
       (Inl IndexError, st\<lparr>requests := requests st @ [url],
                   files := (files st)(CITY_FILE_NAME \<mapsto> data)\<rparr>)"
    using assms(5) e
    by (simp add: update_city_weather_dict_def c parse_data_file_written)
  with e show ?thesis by simp
qed





text \<open>
  C8. After two successful updates for the same city name, the entry of the city is the
  record extracted from the document of the second response, and \<open>city_weather_dict\<close>
  is the mapping before the first update with that single entry replaced: nothing of
  the first record remains.
\<close>

theorem second_query_overwrites:
  assumes "update_city_weather_dict w1 self1 st0 = (Inr (), st1)"
      and "update_city_weather_dict w2 self2 st1 = (Inr (), st2)"
      and "city_name self2 = city_name self1"
  shows "\<exists>url data document r.
           request_url self2 = Inr url \<and> urlopen_read w2 url = Inr data
         \<and> minidom_parse w2 data = Inr document \<and> extract_report document = Inr r
         \<and> city_weather_dict st2 (city_name self1) = Some r
         \<and> city_weather_dict st2 = (city_weather_dict st0)(city_name self1 \<mapsto> r)"
proof -
  from update_files [OF assms(1)] obtain r1 where
    s1: "city_weather_dict st1 = (city_weather_dict st0)(city_name self1 \<mapsto> r1)"
    by blast
  from update_files [OF assms(2)] obtain url data document r where
    f: "request_url self2 = Inr url" "urlopen_read w2 url = Inr data"
       "minidom_parse w2 data = Inr document" "extract_report document = Inr r" and
    s2: "city_weather_dict st2 = (city_weather_dict st1)(city_name self2 \<mapsto> r)"
    by blast
  from s1 s2 assms(3)
  have "city_weather_dict st2 = (city_weather_dict st0)(city_name self1 \<mapsto> r)"
    by simp
  moreover from this have "city_weather_dict st2 (city_name self1) = Some r" by simp
  ultimately show ?thesis using f by blast
qed

lemma print_not_WeatherException:
  "print_city_weather_report self st = (Inl e, st') \<Longrightarrow> e \<noteq> WeatherException m"
  by (auto simp: print_city_weather_report_def split: option.splits sum.splits
      dest: percent_format_Inl)

lemma pipeline_not_WeatherException:
  "fst (case update_city_weather_dict w ob st of
          (Inl e, st1) \<Rightarrow> (Inl e, st1)
        | (Inr u, st1) \<Rightarrow> print_city_weather_report ob st1) \<noteq> Inl (WeatherException m)"
proof (cases "update_city_weather_dict w ob st")
  case (Pair res st1)
  show ?thesis
  proof (cases res)
    case (Inl e)
    with Pair update_failure [of w ob st e st1] show ?thesis by simp
  next
    case (Inr u)
    show ?thesis
    proof (cases "print_city_weather_report ob st1")
      case (Pair pres st2)
      with \<open>update_city_weather_dict w ob st = (res, st1)\<close> Inr
        print_not_WeatherException [of ob st1 "WeatherException m" st2 m]
      show ?thesis by (cases pres) auto
    qed
  qed
qed

text \<open>
  C10. The constructor stores its three arguments unchanged, whatever they are (a number
  as city name, an unknown unit and None as key included). Neither \<open>run\<close> nor \<open>main\<close>
  ever ends with the WeatherException of a setter; a run with valid arguments succeeds
  although the units setter rejects the very value the constructor stored.
\<close>

theorem constructor_no_validation:
  "city_name (CityWeather_init c u k) = c
   \<and> units (CityWeather_init c u k) = u
   \<and> api_key (CityWeather_init c u k) = k
   \<and> CityWeather_init (PyInt 5) (PyStr ''bogus'') PyNone
       = \<lparr>city_name = PyInt 5, units = PyStr ''bogus'', api_key = PyNone, mode = PyStr ''xml''\<rparr>
   \<and> fst (run w c u k st) \<noteq> Inl (WeatherException m)
   \<and> fst (main w a st) \<noteq> Inl (WeatherException m)
   \<and> units_setter u (CityWeather_init c u k) = Inl (WeatherException units_msg)
   \<and> fst (run sample_world (PyStr ''tel aviv'') (PyStr ''celsius'') (PyStr ''KEY'') sample_state)
       = Inr ()"
proof -
  have r: "fst (run w c u k st) \<noteq> Inl (WeatherException m)"
    unfolding run_def Let_def by (rule pipeline_not_WeatherException)
  have mn: "fst (main w a st) \<noteq> Inl (WeatherException m)"
    unfolding main_def Let_def by (rule pipeline_not_WeatherException)
  have us: "units_setter u (CityWeather_init c u k) = Inl (WeatherException units_msg)"
    by (simp add: units_setter_def unit_conversion_dict_def units_loop_two_keys)
  have ok: "fst (run sample_world (PyStr ''tel aviv'') (PyStr ''celsius'') (PyStr ''KEY'')
               sample_state) = Inr ()"
    using sample_update
    by (simp add: run_def Let_def tel_aviv_def [symmetric] print_city_weather_report_def
        report_format_result)
       (simp add: tel_aviv_def CityWeather_init_def)
  from r mn us ok show ?thesis by (simp add: CityWeather_init_def)
qed

lemma sample_second_extract: "extract_report second_document = Inr second_report"
  by (simp add: extract_report_def second_document_def second_report_def
      document_getElementsByTagName_def index0_def bind_exn_def Let_def)

lemma sample_second_update:
  "update_city_weather_dict second_world tel_aviv after_first = (Inr (), after_second)"
  by (simp add: update_success sample_request_url sample_second_extract second_world_def
      after_first_def after_second_def sample_state_def)
     (simp add: tel_aviv_def CityWeather_init_def)

lemma sample_first_update:
  "update_city_weather_dict sample_world tel_aviv sample_state = (Inr (), after_first)"
  unfolding after_first_def by (rule sample_update)

lemma no_wind_missing: "missing_expected_element no_wind_document"
  by (simp add: missing_expected_element_def no_wind_document_def
      document_getElementsByTagName_def)

text \<open>The request for \<open>tel aviv\<close> in celsius.\<close>

theorem request_url_issued_witness:
  "map_of unit_conversion_dict ''celsius'' = Some ''metric''
   \<and> request_url (CityWeather_init (PyStr ''tel aviv'') (PyStr ''celsius'') (PyStr ''KEY''))
       = Inr ''http://api.openweathermap.org/data/2.5/weather?q=tel aviv&appid=KEY&mode=xml&units=metric''
   \<and> requests (snd (create_city_weather_data_file sample_world
         (CityWeather_init (PyStr ''tel aviv'') (PyStr ''celsius'') (PyStr ''KEY'')) sample_state))
       = [''http://api.openweathermap.org/data/2.5/weather?q=tel aviv&appid=KEY&mode=xml&units=metric'']"
proof -
  have h: "map_of unit_conversion_dict ''celsius'' = Some ''metric''"
    by (simp add: unit_conversion_dict_def)
  from request_url_issued [OF h, of "''tel aviv''" "''KEY''" sample_world sample_state] h
  show ?thesis by (simp add: SERVER_NAME_def sample_state_def)
qed

text \<open>The report printed for the sample record.\<close>

theorem print_report_text_witness:
  "city_weather_dict after_first (city_name tel_aviv) = Some sample_report
   \<and> print_city_weather_report tel_aviv after_first =
      (Inr (), after_first\<lparr>stdout :=
         ''Weather report for tel aviv:'' @ [CHR 0x0A]
         @ ''Temperature is at 15 celsius'' @ [CHR 0x0A]
         @ ''Humidity is 60%'' @ [CHR 0x0A]
         @ ''Wind is at 3 speed meaning light breeze'' @ [CHR 0x0A]
         @ ''Air pressure is 1012 hPa'' @ [CHR 0x0A]
         @ ''Clouds coverage is 40% meaning scattered clouds'' @ [CHR 0x0A] @ [CHR 0x0A]\<rparr>)"
proof -
  have h: "city_weather_dict after_first (city_name tel_aviv) = Some sample_report"
    by (simp add: after_first_def tel_aviv_def CityWeather_init_def)
  have s: "stdout after_first = []"
    by (simp add: after_first_def sample_state_def)
  from print_report_text [OF h] h s show ?thesis
    by (simp add: tel_aviv_def CityWeather_init_def str_of_def sample_report_def lower_samples)
qed



text \<open>A response without \<open>wind\<close> leaves the earlier entry of the city in place.\<close>

theorem missing_element_no_entry_witness:
  "missing_expected_element no_wind_document
   \<and> request_url tel_aviv = Inr sample_url
   \<and> urlopen_read no_wind_world sample_url = Inr ''<current/>''
   \<and> open_write no_wind_world CITY_FILE_NAME ''<current/>'' = None
   \<and> minidom_parse no_wind_world ''<current/>'' = Inr no_wind_document
   \<and> extract_report no_wind_document = Inl IndexError
   \<and> fst (update_city_weather_dict no_wind_world tel_aviv after_first) = Inl IndexError
   \<and> city_weather_dict (snd (update_city_weather_dict no_wind_world tel_aviv after_first))
       = city_weather_dict after_first"
proof -
  have h2: "urlopen_read no_wind_world sample_url = Inr ''<current/>''"
    by (simp add: no_wind_world_def sample_world_def)
  have h3: "open_write no_wind_world CITY_FILE_NAME ''<current/>'' = None"
    by (simp add: no_wind_world_def sample_world_def)
  have h4: "minidom_parse no_wind_world ''<current/>'' = Inr no_wind_document"
    by (simp add: no_wind_world_def sample_world_def)
  from missing_element_no_entry [OF no_wind_missing sample_request_url h2 h3 h4, of after_first]
    no_wind_missing sample_request_url h2 h3 h4
  show ?thesis by (intro conjI) simp_all
qed



text \<open>Two queries for \<open>tel aviv\<close> with different responses.\<close>

theorem second_query_overwrites_witness:
  "update_city_weather_dict sample_world tel_aviv sample_state = (Inr (), after_first)
   \<and> update_city_weather_dict second_world tel_aviv after_first = (Inr (), after_second)
   \<and> city_name tel_aviv = city_name tel_aviv
   \<and> city_weather_dict after_first (city_name tel_aviv) = Some sample_report
   \<and> city_weather_dict after_second (city_name tel_aviv) = Some second_report
   \<and> (\<exists>url data document r.
           request_url tel_aviv = Inr url \<and> urlopen_read second_world url = Inr data
         \<and> minidom_parse second_world data = Inr document \<and> extract_report document = Inr r
         \<and> city_weather_dict after_second (city_name tel_aviv) = Some r
         \<and> city_weather_dict after_second
             = (city_weather_dict sample_state)(city_name tel_aviv \<mapsto> r))"
proof -
  have a: "city_weather_dict after_first (city_name tel_aviv) = Some sample_report"
    by (simp add: after_first_def tel_aviv_def CityWeather_init_def)
  have b: "city_weather_dict after_second (city_name tel_aviv) = Some second_report"
    by (simp add: after_second_def tel_aviv_def CityWeather_init_def)
  from second_query_overwrites [OF sample_first_update sample_second_update refl]
    sample_first_update sample_second_update a b
  show ?thesis by (intro conjI) simp_all
qed

end
